theory Spec2Isabelle
  imports Main
begin

section \<open>Data model of \<open>talk/ics/sdk/p2p/p2pclient.cc\<close>\<close>

text \<open>
  Objects that the client only refers to are modelled by their identity: a
  \<open>shared_ptr<P2PPeerConnectionChannel>\<close> is a handle, a \<open>std::function\<close> is the
  identity of its target or \<open>None\<close> when it is empty (the source tests \<open>if (on_failure)\<close>),
  an observer is the address that \<open>RemoveObserver\<close> compares.
\<close>

type_synonym handle = nat
type_synonym callback = "nat option"
type_synonym stream = nat
type_synonym observer = nat
type_synonym client_ref = nat

subsection \<open>\<open>talk/oms/sdk/base/exception.cc\<close>\<close>

datatype ExceptionType = kUnknown | kP2PClientRemoteNotAllowed | kP2PClientRemoteNotExisted

text \<open>The members \<open>type_\<close> and \<open>message_\<close>.\<close>

record Exception =
  exception_type :: ExceptionType
  exception_message :: string

definition Exception_new :: "ExceptionType \<Rightarrow> string \<Rightarrow> Exception" where
  "Exception_new type message = \<lparr>exception_type = type, exception_message = message\<rparr>"

definition Exception_default :: Exception where
  "Exception_default = Exception_new kUnknown ''Unknown exception.''"

definition Exception_Type :: "Exception \<Rightarrow> ExceptionType" where
  "Exception_Type e = exception_type e"

definition Exception_Message :: "Exception \<Rightarrow> string" where
  "Exception_Message e = exception_message e"

subsection \<open>Configuration\<close>

record IceServer =
  urls :: "string list"
  username :: string
  password :: string

datatype CandidateNetworkPolicy = kAll | kLowCost

record P2PClientConfiguration =
  ice_servers :: "IceServer list"
  candidate_network_policy :: CandidateNetworkPolicy

text \<open>The \<open>webrtc::PeerConnectionInterface\<close> side of the configuration.\<close>

record rtc_IceServer =
  rtc_urls :: "string list"
  rtc_username :: string
  rtc_password :: string

datatype rtc_CandidateNetworkPolicy = kCandidateNetworkPolicyAll | kCandidateNetworkPolicyLowCost

record PeerConnectionChannelConfiguration =
  servers :: "rtc_IceServer list"
  rtc_candidate_network_policy :: rtc_CandidateNetworkPolicy

subsection \<open>Effects\<close>

text \<open>
  The lambda that \<open>Publish\<close> hands to the channel as its success callback: it captures
  \<open>on_success\<close>, \<open>target_id\<close> and \<open>stream\<close> (and \<open>weak_this\<close>, whose \<open>lock()\<close> is an
  argument of \<open>run_publish_lambda\<close> below).
\<close>

datatype publish_lambda = PublishLambda callback string stream

text \<open>Calls made on the two collaborators, in the order the client makes them.\<close>

datatype call =
    SignalingAddObserver
  | SignalingConnect string string callback callback
  | SignalingDisconnect callback callback
  | SignalingSendMessage string string callback callback
  | ChannelNew handle PeerConnectionChannelConfiguration string string
  | ChannelAddObserver handle
  | ChannelPublish handle stream publish_lambda callback
  | ChannelUnpublish handle stream callback callback
  | ChannelSend handle string callback callback
  | ChannelStop handle callback callback
  | ChannelGetConnectionStats handle callback callback
  | ChannelOnIncomingSignalingMessage handle string

text \<open>
  The three lambdas posted on \<open>event_queue_\<close>; each captures \<open>on_failure\<close>, which the
  source has tested to be non-empty.
\<close>

datatype task =
    RemoveNotExistedTask nat
  | PublishNotAllowedTask nat
  | SendNotAllowedTask nat

datatype LoggingSeverity = LS_INFO | LS_WARNING

record P2PPublication =
  publication_client :: client_ref
  publication_target_id :: string
  publication_stream :: stream

text \<open>What the application sees: one of its callbacks is invoked.\<close>

datatype invocation =
    InvokeFailure nat Exception
  | InvokeFailureCode nat int
  | InvokePublishSuccess nat P2PPublication

subsection \<open>The client\<close>

text \<open>
  \<open>allowed_remote_ids_\<close> is a vector, \<open>pc_channels_\<close> an associative container from
  remote id to channel (a list of pairs here, so that "one entry per key" is a property
  to prove and not one of the type), \<open>observers_\<close> a vector of references.
  \<open>next_channel\<close> is the identity that the next \<open>new P2PPeerConnectionChannel\<close> gets;
  \<open>event_queue\<close>, \<open>calls\<close> and \<open>logs\<close> record the tasks posted, the collaborator calls
  made and the lines logged.

  Each operation is one step from client to client. Two threads inside the client are
  modelled only where a claim needs them: \<open>Stop\<close> is also given in two parts, cut where it
  takes \<open>remote_ids_mutex_\<close>, so that another thread's operation can run between them.
  The client is taken to be held by a \<open>shared_ptr\<close>, as
  \<open>shared_from_this()\<close> in \<open>Publish\<close> requires. The observer notifications (\<open>OnStarted\<close>,
  \<open>OnData\<close>, ...) go through \<open>EventTrigger\<close>, which is not part of these files, and touch
  neither list nor the channel map; they are left out.
\<close>

record P2PClient =
  local_id :: string
  configuration :: P2PClientConfiguration
  allowed_remote_ids :: "string list"
  pc_channels :: "(string \<times> handle) list"
  observers :: "observer list"
  next_channel :: handle
  event_queue :: "task list"
  calls :: "call list"
  logs :: "(LoggingSeverity \<times> string) list"

definition RTC_LOG :: "LoggingSeverity \<Rightarrow> string \<Rightarrow> P2PClient \<Rightarrow> P2PClient" where
  "RTC_LOG sev msg c = c\<lparr>logs := logs c @ [(sev, msg)]\<rparr>"

definition PostTask :: "task \<Rightarrow> P2PClient \<Rightarrow> P2PClient" where
  "PostTask t c = c\<lparr>event_queue := event_queue c @ [t]\<rparr>"

definition make_call :: "call \<Rightarrow> P2PClient \<Rightarrow> P2PClient" where
  "make_call k c = c\<lparr>calls := calls c @ [k]\<rparr>"

text \<open>The associative container: \<open>find\<close>, \<open>insert\<close> (no effect on a present key), \<open>erase(key)\<close>.\<close>

definition map_find :: "(string \<times> handle) list \<Rightarrow> string \<Rightarrow> handle option" where
  "map_find m k = map_of m k"

definition map_insert :: "(string \<times> handle) list \<Rightarrow> string \<times> handle \<Rightarrow> (string \<times> handle) list" where
  "map_insert m p = (if map_of m (fst p) = None then m @ [p] else m)"

definition map_erase :: "(string \<times> handle) list \<Rightarrow> string \<Rightarrow> (string \<times> handle) list" where
  "map_erase m k = filter (\<lambda>p. fst p \<noteq> k) m"

text \<open>
  The constructor. \<open>RTC_CHECK(signaling_channel_)\<close> aborts on a null transport (\<open>None\<close>);
  the member is never assigned again, so the same check in \<open>Connect\<close> and \<open>Disconnect\<close>
  passes on every constructed client. \<open>local_id_\<close> is default-initialised.
\<close>

definition initial_client :: "P2PClientConfiguration \<Rightarrow> P2PClient" where
  "initial_client cfg =
     \<lparr>local_id = [], configuration = cfg, allowed_remote_ids = [], pc_channels = [],
      observers = [], next_channel = 0, event_queue = [], calls = [SignalingAddObserver],
      logs = []\<rparr>"

definition P2PClient_new :: "P2PClientConfiguration \<Rightarrow> bool \<Rightarrow> P2PClient option" where
  "P2PClient_new cfg signaling_channel =
     (if signaling_channel then Some (initial_client cfg) else None)"

definition Connect :: "P2PClient \<Rightarrow> string \<Rightarrow> string \<Rightarrow> callback \<Rightarrow> callback \<Rightarrow> P2PClient" where
  "Connect c host token on_success on_failure =
     make_call (SignalingConnect host token on_success on_failure) c"

definition Disconnect :: "P2PClient \<Rightarrow> callback \<Rightarrow> callback \<Rightarrow> P2PClient" where
  "Disconnect c on_success on_failure = make_call (SignalingDisconnect on_success on_failure) c"

definition AddAllowedRemoteId :: "P2PClient \<Rightarrow> string \<Rightarrow> P2PClient" where
  "AddAllowedRemoteId c target_id =
     (if target_id \<in> set (allowed_remote_ids c)
      then RTC_LOG LS_INFO ''Adding duplicated remote id.'' c
      else c\<lparr>allowed_remote_ids := allowed_remote_ids c @ [target_id]\<rparr>)"

text \<open>\<open>GetPeerConnectionChannelConfiguration\<close>: the loop over \<open>configuration_.ice_servers\<close>.\<close>

fun convert_ice_servers :: "IceServer list \<Rightarrow> rtc_IceServer list" where
  "convert_ice_servers [] = []"
| "convert_ice_servers (it # rest) =
     \<lparr>rtc_urls = urls it, rtc_username = username it, rtc_password = password it\<rparr>
       # convert_ice_servers rest"

definition GetPeerConnectionChannelConfiguration ::
    "P2PClient \<Rightarrow> PeerConnectionChannelConfiguration" where
  "GetPeerConnectionChannelConfiguration c =
     \<lparr>servers = convert_ice_servers (ice_servers (configuration c)),
      rtc_candidate_network_policy =
        (if candidate_network_policy (configuration c) = kLowCost
         then kCandidateNetworkPolicyLowCost else kCandidateNetworkPolicyAll)\<rparr>"

definition IsPeerConnectionChannelCreated :: "P2PClient \<Rightarrow> string \<Rightarrow> bool" where
  "IsPeerConnectionChannelCreated c target_id =
     (if map_find (pc_channels c) target_id = None then False else True)"

text \<open>
  \<open>GetPeerConnectionChannel\<close> returns the channel and the client after the call. The
  signaling sender and the channel observer it allocates refer back to this client; they
  are part of \<open>ChannelNew\<close> and \<open>ChannelAddObserver\<close>.
\<close>

definition GetPeerConnectionChannel :: "P2PClient \<Rightarrow> string \<Rightarrow> handle \<times> P2PClient" where
  "GetPeerConnectionChannel c target_id =
     (case map_find (pc_channels c) target_id of
        None \<Rightarrow>
          (let config = GetPeerConnectionChannelConfiguration c;
               pcc = next_channel c;
               c1 = make_call (ChannelNew pcc config (local_id c) target_id)
                      (c\<lparr>next_channel := Suc pcc\<rparr>);
               c2 = make_call (ChannelAddObserver pcc) c1
           in (pcc, c2\<lparr>pc_channels := map_insert (pc_channels c2) (target_id, pcc)\<rparr>))
      | Some pcc \<Rightarrow> (pcc, c))"

definition Stop :: "P2PClient \<Rightarrow> string \<Rightarrow> callback \<Rightarrow> callback \<Rightarrow> P2PClient" where
  "Stop c target_id on_success on_failure =
     (let (pcc, c1) = GetPeerConnectionChannel c target_id;
          c2 = make_call (ChannelStop pcc on_success on_failure) c1;
          c3 = c2\<lparr>pc_channels := map_erase (pc_channels c2) target_id\<rparr>
      in c3\<lparr>allowed_remote_ids := removeAll target_id (allowed_remote_ids c3)\<rparr>)"

text \<open>
  \<open>Stop\<close> in two parts. The first is lines 144 to 147: the channel is fetched and stopped
  and its entry erased from \<open>pc_channels_\<close>, with no lock held. The second is lines 148 to
  151: \<open>remote_ids_mutex_\<close> is taken and the identity removed from
  \<open>allowed_remote_ids_\<close>. No reader of either container takes the mutex, so any operation
  of another thread may run between the two parts.
\<close>

definition Stop_before_lock :: "P2PClient \<Rightarrow> string \<Rightarrow> callback \<Rightarrow> callback \<Rightarrow> P2PClient" where
  "Stop_before_lock c target_id on_success on_failure =
     (let (pcc, c1) = GetPeerConnectionChannel c target_id;
          c2 = make_call (ChannelStop pcc on_success on_failure) c1
      in c2\<lparr>pc_channels := map_erase (pc_channels c2) target_id\<rparr>)"

definition Stop_under_lock :: "P2PClient \<Rightarrow> string \<Rightarrow> P2PClient" where
  "Stop_under_lock c target_id =
     c\<lparr>allowed_remote_ids := removeAll target_id (allowed_remote_ids c)\<rparr>"

definition RemoveAllowedRemoteId ::
    "P2PClient \<Rightarrow> string \<Rightarrow> callback \<Rightarrow> callback \<Rightarrow> P2PClient" where
  "RemoveAllowedRemoteId c target_id on_success on_failure =
     (if target_id \<notin> set (allowed_remote_ids c)
      then (case on_failure of
              Some f \<Rightarrow> PostTask (RemoveNotExistedTask f) c
            | None \<Rightarrow> c)
      else Stop c target_id on_success on_failure)"

definition Publish ::
    "P2PClient \<Rightarrow> string \<Rightarrow> stream \<Rightarrow> callback \<Rightarrow> callback \<Rightarrow> P2PClient" where
  "Publish c target_id stream on_success on_failure =
     (if target_id \<notin> set (allowed_remote_ids c)
      then (case on_failure of
              Some f \<Rightarrow> PostTask (PublishNotAllowedTask f) c
            | None \<Rightarrow> c)
      else (let (pcc, c1) = GetPeerConnectionChannel c target_id
            in make_call
                 (ChannelPublish pcc stream (PublishLambda on_success target_id stream) on_failure)
                 c1))"

definition Send :: "P2PClient \<Rightarrow> string \<Rightarrow> string \<Rightarrow> callback \<Rightarrow> callback \<Rightarrow> P2PClient" where
  "Send c target_id message on_success on_failure =
     (if target_id \<notin> set (allowed_remote_ids c)
      then (case on_failure of
              Some f \<Rightarrow> PostTask (SendNotAllowedTask f) c
            | None \<Rightarrow> c)
      else (let (pcc, c1) = GetPeerConnectionChannel c target_id
            in make_call (ChannelSend pcc message on_success on_failure) c1))"

definition GetConnectionStats ::
    "P2PClient \<Rightarrow> string \<Rightarrow> callback \<Rightarrow> callback \<Rightarrow> P2PClient" where
  "GetConnectionStats c target_id on_success on_failure =
     (let (pcc, c1) = GetPeerConnectionChannel c target_id
      in make_call (ChannelGetConnectionStats pcc on_success on_failure) c1)"

definition chat_closed :: string where
  "chat_closed = ''{\"type\":\"chat-closed\"}''"

definition OnMessage :: "P2PClient \<Rightarrow> string \<Rightarrow> string \<Rightarrow> P2PClient" where
  "OnMessage c message remote_id =
     (if remote_id \<notin> set (allowed_remote_ids c)
      then RTC_LOG LS_WARNING ''Chat cannot be setup since the remote user is not allowed.'' c
      else if message = chat_closed \<and> \<not> IsPeerConnectionChannelCreated c remote_id
      then RTC_LOG LS_WARNING ''Non-existed chat cannot be stopped.'' c
      else (let (pcc, c1) = GetPeerConnectionChannel c remote_id
            in make_call (ChannelOnIncomingSignalingMessage pcc message) c1))"

text \<open>The transport gets \<open>nullptr\<close> as its failure callback (\<open>// TODO:fix on_failure.\<close>).\<close>

definition SendSignalingMessage ::
    "P2PClient \<Rightarrow> string \<Rightarrow> string \<Rightarrow> callback \<Rightarrow> callback \<Rightarrow> P2PClient" where
  "SendSignalingMessage c message remote_id on_success on_failure =
     make_call (SignalingSendMessage message remote_id on_success None) c"

definition AddObserver :: "P2PClient \<Rightarrow> observer \<Rightarrow> P2PClient" where
  "AddObserver c obs = c\<lparr>observers := observers c @ [obs]\<rparr>"

text \<open>
  \<open>std::find_if\<close> as the position of the first element that satisfies the predicate,
  the length of the list standing for \<open>end()\<close>; \<open>erase\<close> of \<open>end()\<close> is undefined
  behaviour in C++.
\<close>

fun find_if :: "('a \<Rightarrow> bool) \<Rightarrow> 'a list \<Rightarrow> nat" where
  "find_if p [] = 0"
| "find_if p (x # xs) = (if p x then 0 else Suc (find_if p xs))"

datatype undefined_behaviour = EraseEndIterator

definition vector_erase :: "'a list \<Rightarrow> nat \<Rightarrow> undefined_behaviour + 'a list" where
  "vector_erase xs i =
     (if i < length xs then Inr (take i xs @ drop (Suc i) xs) else Inl EraseEndIterator)"

definition RemoveObserver :: "P2PClient \<Rightarrow> observer \<Rightarrow> undefined_behaviour + P2PClient" where
  "RemoveObserver c obs =
     (case vector_erase (observers c) (find_if (\<lambda>o'. obs = o') (observers c)) of
        Inl ub \<Rightarrow> Inl ub
      | Inr os \<Rightarrow> Inr (c\<lparr>observers := os\<rparr>))"

definition Unpublish ::
    "P2PClient \<Rightarrow> string \<Rightarrow> stream \<Rightarrow> callback \<Rightarrow> callback \<Rightarrow> P2PClient" where
  "Unpublish c target_id stream on_success on_failure =
     (let (pcc, c1) = GetPeerConnectionChannel c target_id
      in make_call (ChannelUnpublish pcc stream on_success on_failure) c1)"

subsection \<open>Running the callbacks\<close>

text \<open>The bodies of the three posted lambdas: build the exception, call \<open>on_failure\<close>.\<close>

fun run_task :: "task \<Rightarrow> invocation" where
  "run_task (RemoveNotExistedTask f) =
     InvokeFailure f (Exception_new kP2PClientRemoteNotExisted
       ''Trying to delete non-existed remote id.'')"
| "run_task (PublishNotAllowedTask f) =
     InvokeFailure f (Exception_new kP2PClientRemoteNotAllowed
       ''Publishing a stream cannot be done since the remote user is not allowed.'')"
| "run_task (SendNotAllowedTask f) =
     InvokeFailure f (Exception_new kP2PClientRemoteNotAllowed
       ''Sending a message cannot be done since the remote user is not allowed.'')"

text \<open>
  The body of the success lambda of \<open>Publish\<close>; \<open>that\<close> is the result of
  \<open>weak_this.lock()\<close>, \<open>None\<close> once the client is gone.
\<close>

definition run_publish_lambda :: "publish_lambda \<Rightarrow> client_ref option \<Rightarrow> invocation list" where
  "run_publish_lambda l that =
     (case l of PublishLambda on_success target_id stream \<Rightarrow>
        (case on_success of
           None \<Rightarrow> []
         | Some f \<Rightarrow>
             (case that of
                None \<Rightarrow> []
              | Some t \<Rightarrow>
                  [InvokePublishSuccess f
                     \<lparr>publication_client = t, publication_target_id = target_id,
                      publication_stream = stream\<rparr>])))"

subsection \<open>The collaborators completing a call\<close>

text \<open>
  Modelled from the spec: the peer-connection channel (its source is not part of these
  files) completing \<open>Publish(stream, onSuccess, onFailure)\<close>. It reports success through
  the success callback it was given and a failure through the failure callback it was
  given, with the exception unchanged; \<open>that\<close> is \<open>weak_this.lock()\<close> at that moment.
\<close>

datatype publish_outcome = PublishSucceeded | PublishFailed Exception

fun channel_publish_reports :: "call \<Rightarrow> publish_outcome \<Rightarrow> client_ref option \<Rightarrow> invocation list" where
  "channel_publish_reports (ChannelPublish pcc stream on_success on_failure) PublishSucceeded that =
     run_publish_lambda on_success that"
| "channel_publish_reports (ChannelPublish pcc stream on_success on_failure) (PublishFailed e) that =
     (case on_failure of None \<Rightarrow> [] | Some f \<Rightarrow> [InvokeFailure f e])"
| "channel_publish_reports other outcome that = []"

text \<open>
  Modelled from the spec: the signaling transport (its source is not part of these files)
  failing a \<open>SendMessage(message, remoteId, onSuccess, onFailure)\<close> with an error code. It
  can report the failure only to the failure callback it was given.
\<close>

fun transport_send_fails :: "call \<Rightarrow> int \<Rightarrow> invocation list" where
  "transport_send_fails (SignalingSendMessage message remote_id on_success on_failure) code =
     (case on_failure of None \<Rightarrow> [] | Some f \<Rightarrow> [InvokeFailureCode f code])"
| "transport_send_fails other code = []"

section \<open>Reachable states\<close>

text \<open>
  The states a constructed client reaches through its public operations and the
  transport's \<open>OnMessage\<close>; \<open>RemoveObserver\<close> only where its behaviour is defined.
\<close>

inductive reachable :: "P2PClient \<Rightarrow> bool" where
  r_new: "P2PClient_new cfg sc = Some c \<Longrightarrow> reachable c"
| r_Connect: "reachable c \<Longrightarrow> reachable (Connect c host token ok ko)"
| r_Disconnect: "reachable c \<Longrightarrow> reachable (Disconnect c ok ko)"
| r_AddAllowedRemoteId: "reachable c \<Longrightarrow> reachable (AddAllowedRemoteId c i)"
| r_RemoveAllowedRemoteId: "reachable c \<Longrightarrow> reachable (RemoveAllowedRemoteId c i ok ko)"
| r_Publish: "reachable c \<Longrightarrow> reachable (Publish c i st ok ko)"
| r_Unpublish: "reachable c \<Longrightarrow> reachable (Unpublish c i st ok ko)"
| r_Send: "reachable c \<Longrightarrow> reachable (Send c i m ok ko)"
| r_Stop: "reachable c \<Longrightarrow> reachable (Stop c i ok ko)"
| r_GetConnectionStats: "reachable c \<Longrightarrow> reachable (GetConnectionStats c i ok ko)"
| r_OnMessage: "reachable c \<Longrightarrow> reachable (OnMessage c m i)"
| r_SendSignalingMessage: "reachable c \<Longrightarrow> reachable (SendSignalingMessage c m i ok ko)"
| r_AddObserver: "reachable c \<Longrightarrow> reachable (AddObserver c ob)"
| r_RemoveObserver: "reachable c \<Longrightarrow> RemoveObserver c ob = Inr c' \<Longrightarrow> reachable c'"

text \<open>
  The two structural invariants: one entry per key in \<open>pc_channels_\<close>, one entry per
  identity in \<open>allowed_remote_ids_\<close>.
\<close>

definition wf_client :: "P2PClient \<Rightarrow> bool" where
  "wf_client c = (distinct (map fst (pc_channels c)) \<and> distinct (allowed_remote_ids c))"

text \<open>A configuration for the concrete runs below.\<close>

definition example_configuration :: P2PClientConfiguration where
  "example_configuration = \<lparr>ice_servers = [], candidate_network_policy = kAll\<rparr>"

text \<open>Concrete clients for the runs below.\<close>

definition bob_allowed :: P2PClient where
  "bob_allowed = AddAllowedRemoteId (initial_client example_configuration) ''bob''"

definition bob_client :: P2PClient where
  "bob_client = Send bob_allowed ''bob'' ''hi'' None None"

definition eve_client :: P2PClient where
  "eve_client = AddAllowedRemoteId (initial_client example_configuration) ''eve''"

definition watched_client :: P2PClient where
  "watched_client =
     AddObserver (AddObserver (AddObserver (initial_client example_configuration) 7) 8) 7"

section \<open>Lemmas about the operations\<close>

lemma map_find_None_iff: "map_find m k = None \<longleftrightarrow> k \<notin> fst ` set m"
  by (simp add: map_find_def map_of_eq_None_iff)

lemma map_erase_find: "map_find (map_erase m k) k = None"
  by (auto simp add: map_find_None_iff map_erase_def)

lemma map_erase_distinct: "distinct (map fst m) \<Longrightarrow> distinct (map fst (map_erase m k))"
  by (simp add: map_erase_def distinct_map_filter)

lemma GetPeerConnectionChannel_allowed:
  "allowed_remote_ids (snd (GetPeerConnectionChannel c t)) = allowed_remote_ids c"
  by (simp add: GetPeerConnectionChannel_def make_call_def Let_def split: option.splits)

lemma GetPeerConnectionChannel_observers:
  "observers (snd (GetPeerConnectionChannel c t)) = observers c"
  by (simp add: GetPeerConnectionChannel_def make_call_def Let_def split: option.splits)

lemma GetPeerConnectionChannel_event_queue:
  "event_queue (snd (GetPeerConnectionChannel c t)) = event_queue c"
  by (simp add: GetPeerConnectionChannel_def make_call_def Let_def split: option.splits)

lemma GetPeerConnectionChannel_existing:
  "map_find (pc_channels c) t = Some h \<Longrightarrow> GetPeerConnectionChannel c t = (h, c)"
  by (simp add: GetPeerConnectionChannel_def)

lemma GetPeerConnectionChannel_find:
  "map_find (pc_channels (snd (GetPeerConnectionChannel c t))) t
     = Some (fst (GetPeerConnectionChannel c t))"
  by (simp add: GetPeerConnectionChannel_def make_call_def map_insert_def map_find_def Let_def
      map_add_def split: option.splits)

lemma GetPeerConnectionChannel_distinct:
  "distinct (map fst (pc_channels c)) \<Longrightarrow>
   distinct (map fst (pc_channels (snd (GetPeerConnectionChannel c t))))"
  by (auto simp add: GetPeerConnectionChannel_def make_call_def map_insert_def map_find_def
      Let_def map_of_eq_None_iff split: option.splits)

lemma Stop_pc_channels:
  "pc_channels (Stop c t ok ko) = map_erase (pc_channels (snd (GetPeerConnectionChannel c t))) t"
  by (simp add: Stop_def make_call_def Let_def split_def)

lemma Stop_allowed:
  "allowed_remote_ids (Stop c t ok ko) = removeAll t (allowed_remote_ids c)"
  using GetPeerConnectionChannel_allowed [of c t]
  by (simp add: Stop_def make_call_def Let_def split_def)

lemma Stop_calls:
  "calls (Stop c t ok ko) = calls (snd (GetPeerConnectionChannel c t))
      @ [ChannelStop (fst (GetPeerConnectionChannel c t)) ok ko]"
  by (simp add: Stop_def make_call_def Let_def split_def)

lemma Stop_split:
  "Stop c t ok ko = Stop_under_lock (Stop_before_lock c t ok ko) t"
  by (simp add: Stop_def Stop_before_lock_def Stop_under_lock_def Let_def split_def)

lemma wf_GetPeerConnectionChannel:
  "wf_client c \<Longrightarrow> wf_client (snd (GetPeerConnectionChannel c t))"
  by (simp add: wf_client_def GetPeerConnectionChannel_distinct GetPeerConnectionChannel_allowed)

lemma wf_make_call: "wf_client (make_call k c) = wf_client c"
  by (simp add: wf_client_def make_call_def)

lemma wf_PostTask: "wf_client (PostTask k c) = wf_client c"
  by (simp add: wf_client_def PostTask_def)

lemma wf_RTC_LOG: "wf_client (RTC_LOG s m c) = wf_client c"
  by (simp add: wf_client_def RTC_LOG_def)

lemma wf_Stop: "wf_client c \<Longrightarrow> wf_client (Stop c t ok ko)"
  using GetPeerConnectionChannel_distinct [of c t]
  by (simp add: wf_client_def Stop_pc_channels Stop_allowed map_erase_distinct distinct_removeAll)

lemma wf_with_channel:
  "wf_client c \<Longrightarrow>
   wf_client (case GetPeerConnectionChannel c t of (pcc, c1) \<Rightarrow> make_call (k pcc) c1)"
  using wf_GetPeerConnectionChannel [of c t]
  by (simp add: wf_make_call split_def)

lemma reachable_wf: "reachable c \<Longrightarrow> wf_client c"
proof (induction rule: reachable.induct)
  case (r_new cfg sc c)
  then show ?case
    by (auto simp: P2PClient_new_def initial_client_def wf_client_def split: if_splits)
next
  case (r_AddAllowedRemoteId c i)
  then show ?case by (simp add: AddAllowedRemoteId_def wf_RTC_LOG) (simp add: wf_client_def)
next
  case (r_RemoveAllowedRemoteId c i ok ko)
  then show ?case by (simp add: RemoveAllowedRemoteId_def wf_PostTask wf_Stop split: option.splits)
next
  case (r_Publish c i st ok ko)
  then show ?case
    by (simp add: Publish_def wf_PostTask wf_with_channel split: option.splits)
next
  case (r_Unpublish c i st ok ko)
  then show ?case by (simp add: Unpublish_def wf_with_channel)
next
  case (r_Send c i m ok ko)
  then show ?case by (simp add: Send_def wf_PostTask wf_with_channel split: option.splits)
next
  case (r_Stop c i ok ko)
  then show ?case by (simp add: wf_Stop)
next
  case (r_GetConnectionStats c i ok ko)
  then show ?case by (simp add: GetConnectionStats_def wf_with_channel)
next
  case (r_OnMessage c m i)
  then show ?case by (simp add: OnMessage_def wf_RTC_LOG wf_with_channel)
next
  case (r_AddObserver c ob)
  then show ?case by (simp add: AddObserver_def wf_client_def)
next
  case (r_RemoveObserver c ob c')
  then show ?case by (auto simp: RemoveObserver_def wf_client_def split: sum.splits)
qed (simp_all add: Connect_def Disconnect_def SendSignalingMessage_def wf_make_call)

lemma Exception_new_Type: "Exception_Type (Exception_new t m) = t"
  by (simp add: Exception_Type_def Exception_new_def)

lemma Exception_new_Message: "Exception_Message (Exception_new t m) = m"
  by (simp add: Exception_Message_def Exception_new_def)

lemma Send_not_allowed_Some:
  "t \<notin> set (allowed_remote_ids c) \<Longrightarrow> Send c t m ok (Some f) = PostTask (SendNotAllowedTask f) c"
  by (simp add: Send_def)

lemma Send_not_allowed_pc_channels:
  "t \<notin> set (allowed_remote_ids c) \<Longrightarrow> pc_channels (Send c t m ok ko) = pc_channels c"
  by (simp add: Send_def PostTask_def split: option.splits)

lemma Stop_not_allowed_after: "t \<notin> set (allowed_remote_ids (Stop c t ok ko))"
  by (simp add: Stop_allowed)

lemma Stop_no_session_after: "map_find (pc_channels (Stop c t ok ko)) t = None"
  by (simp add: Stop_pc_channels map_erase_find)

lemma run_task_no_publication: "run_task t \<noteq> InvokePublishSuccess g p"
  by (cases t) simp_all

lemma Publish_allowed_eq:
  "t \<in> set (allowed_remote_ids c) \<Longrightarrow>
   Publish c t s ok ko
     = make_call (ChannelPublish (fst (GetPeerConnectionChannel c t)) s (PublishLambda ok t s) ko)
         (snd (GetPeerConnectionChannel c t))"
  by (simp add: Publish_def split_def Let_def)

lemma Send_allowed_eq:
  "t \<in> set (allowed_remote_ids c) \<Longrightarrow>
   Send c t m ok ko
     = make_call (ChannelSend (fst (GetPeerConnectionChannel c t)) m ok ko)
         (snd (GetPeerConnectionChannel c t))"
  by (simp add: Send_def split_def Let_def)

lemma make_call_fields:
  "calls (make_call k d) = calls d @ [k]"
  "last (calls (make_call k d)) = k"
  "pc_channels (make_call k d) = pc_channels d"
  "allowed_remote_ids (make_call k d) = allowed_remote_ids d"
  "event_queue (make_call k d) = event_queue d"
  "next_channel (make_call k d) = next_channel d"
  "observers (make_call k d) = observers d"
  by (simp_all add: make_call_def)

lemma distinct_count_list_1: "distinct xs \<Longrightarrow> x \<in> set xs \<Longrightarrow> count_list xs x = 1"
  by (induction xs) auto

lemma AddAllowedRemoteId_member: "i \<in> set (allowed_remote_ids (AddAllowedRemoteId c i))"
  by (simp add: AddAllowedRemoteId_def RTC_LOG_def)

lemma AddAllowedRemoteId_distinct:
  "distinct (allowed_remote_ids c) \<Longrightarrow> distinct (allowed_remote_ids (AddAllowedRemoteId c i))"
  by (simp add: AddAllowedRemoteId_def RTC_LOG_def)

lemma find_if_member: "x \<in> set xs \<Longrightarrow> find_if (\<lambda>y. x = y) xs < length xs"
  by (induction xs) auto

lemma find_if_not_member: "x \<notin> set xs \<Longrightarrow> find_if (\<lambda>y. x = y) xs = length xs"
  by (induction xs) auto

lemma erase_find_if:
  "x \<in> set xs \<Longrightarrow>
   take (find_if (\<lambda>y. x = y) xs) xs @ drop (Suc (find_if (\<lambda>y. x = y) xs)) xs = remove1 x xs"
  by (induction xs) auto

lemmas run_defs =
  initial_client_def example_configuration_def AddAllowedRemoteId_def Send_def
  GetPeerConnectionChannel_def GetPeerConnectionChannelConfiguration_def map_find_def
  map_insert_def make_call_def Let_def AddObserver_def

lemma reachable_initial: "reachable (initial_client cfg)"
  by (rule r_new [of cfg True]) (simp add: P2PClient_new_def)

lemma bob_allowed_eval:
  "allowed_remote_ids bob_allowed = [''bob'']" "pc_channels bob_allowed = []"
  "next_channel bob_allowed = 0"
  by (simp_all add: bob_allowed_def run_defs)

lemma bob_allowed_channel: "fst (GetPeerConnectionChannel bob_allowed ''bob'') = 0"
  by (simp add: GetPeerConnectionChannel_def bob_allowed_eval map_find_def Let_def)

lemma bob_client_eval:
  "allowed_remote_ids bob_client = [''bob'']" "pc_channels bob_client = [(''bob'', 0)]"
  by (simp_all add: bob_client_def bob_allowed_def run_defs)

lemma eve_client_eval:
  "allowed_remote_ids eve_client = [''eve'']" "pc_channels eve_client = []"
  "next_channel eve_client = 0"
  by (simp_all add: eve_client_def run_defs)

lemma eve_client_channel: "fst (GetPeerConnectionChannel eve_client ''eve'') = 0"
  by (simp add: GetPeerConnectionChannel_def eve_client_eval map_find_def Let_def)

lemma watched_client_eval: "observers watched_client = [7, 8, 7]"
  by (simp add: watched_client_def run_defs)

section \<open>Sessions and authorization\<close>


text \<open>
  C1. The claim: a session for an identity exists only if the identity was in the allowed
  list when the session was created, and no public operation, \<open>GetConnectionStats\<close>,
  \<open>Unpublish\<close> and \<open>Stop\<close> included, creates a session for an identity that is not
  allowed. The code does otherwise: \<open>GetConnectionStats\<close> and \<open>Unpublish\<close> call
  \<open>GetPeerConnectionChannel\<close> with no check, unlike \<open>Publish\<close>, \<open>Send\<close> and \<open>OnMessage\<close>.
  On a fresh client with an empty allowed list, \<open>GetConnectionStats\<close> for "mallory" gives
  a reachable state that holds a session for "mallory"; so does \<open>Unpublish\<close>.
\<close>

theorem GetConnectionStats_creates_unauthorized_session:
  "reachable (GetConnectionStats (initial_client example_configuration) ''mallory'' None None)
   \<and> ''mallory'' \<notin> set (allowed_remote_ids (initial_client example_configuration))
   \<and> map_find (pc_channels (initial_client example_configuration)) ''mallory'' = None
   \<and> map_find (pc_channels (GetConnectionStats (initial_client example_configuration) ''mallory'' None None))
        ''mallory'' = Some 0
   \<and> map_find (pc_channels (Unpublish (initial_client example_configuration) ''mallory'' 7 None None))
        ''mallory'' = Some 0"
proof -
  have "reachable (initial_client example_configuration)"
    by (rule r_new [of example_configuration True]) (simp add: P2PClient_new_def)
  then have "reachable (GetConnectionStats (initial_client example_configuration) ''mallory'' None None)"
    by (rule r_GetConnectionStats)
  moreover have "''mallory'' \<notin> set (allowed_remote_ids (initial_client example_configuration))"
    by (simp add: initial_client_def)
  moreover have "map_find (pc_channels (initial_client example_configuration)) ''mallory'' = None"
    by (simp add: initial_client_def map_find_def)
  moreover have "map_find (pc_channels (GetConnectionStats (initial_client example_configuration) ''mallory'' None None))
        ''mallory'' = Some 0"
    by (simp add: GetConnectionStats_def GetPeerConnectionChannel_def initial_client_def
        map_find_def map_insert_def make_call_def Let_def)
  moreover have "map_find (pc_channels (Unpublish (initial_client example_configuration) ''mallory'' 7 None None))
        ''mallory'' = Some 0"
    by (simp add: Unpublish_def GetPeerConnectionChannel_def initial_client_def
        map_find_def map_insert_def make_call_def Let_def)
  ultimately show ?thesis by blast
qed

text \<open>
  C2. For a target that is not in the allowed list, \<open>Publish\<close> and \<open>Send\<close> change nothing
  but the event queue (no session, no channel call), on which they post one task; run, the
  task invokes the given failure callback with an exception of kind
  \<open>kP2PClientRemoteNotAllowed\<close>, for \<open>Send\<close> with the message of the claim. With an empty
  failure callback nothing is posted.
\<close>

theorem Publish_Send_not_allowed:
  assumes "target_id \<notin> set (allowed_remote_ids c)"
  shows "(\<exists>e. map run_task (event_queue (Publish c target_id stream ok (Some f)))
              = map run_task (event_queue c) @ [InvokeFailure f e]
            \<and> Exception_Type e = kP2PClientRemoteNotAllowed)
       \<and> (\<exists>e. map run_task (event_queue (Send c target_id message ok (Some f)))
              = map run_task (event_queue c) @ [InvokeFailure f e]
            \<and> Exception_Type e = kP2PClientRemoteNotAllowed
            \<and> Exception_Message e
                = ''Sending a message cannot be done since the remote user is not allowed.'')
       \<and> Publish c target_id stream ok ko
           = c\<lparr>event_queue := event_queue (Publish c target_id stream ok ko)\<rparr>
       \<and> Send c target_id message ok ko
           = c\<lparr>event_queue := event_queue (Send c target_id message ok ko)\<rparr>
       \<and> Publish c target_id stream ok None = c
       \<and> Send c target_id message ok None = c"
proof -
  have p: "Publish c target_id stream ok (Some f) = PostTask (PublishNotAllowedTask f) c"
    and s: "Send c target_id message ok (Some f) = PostTask (SendNotAllowedTask f) c"
    using assms by (simp_all add: Publish_def Send_def)
  have "\<exists>e. map run_task (event_queue (Publish c target_id stream ok (Some f)))
              = map run_task (event_queue c) @ [InvokeFailure f e]
            \<and> Exception_Type e = kP2PClientRemoteNotAllowed"
    by (simp add: p PostTask_def Exception_new_Type)
  moreover have "\<exists>e. map run_task (event_queue (Send c target_id message ok (Some f)))
              = map run_task (event_queue c) @ [InvokeFailure f e]
            \<and> Exception_Type e = kP2PClientRemoteNotAllowed
            \<and> Exception_Message e
                = ''Sending a message cannot be done since the remote user is not allowed.''"
    by (simp add: s PostTask_def Exception_new_Type Exception_new_Message)
  moreover have "Publish c target_id stream ok ko
           = c\<lparr>event_queue := event_queue (Publish c target_id stream ok ko)\<rparr>"
    using assms by (simp add: Publish_def PostTask_def split: option.splits)
  moreover have "Send c target_id message ok ko
           = c\<lparr>event_queue := event_queue (Send c target_id message ok ko)\<rparr>"
    using assms by (simp add: Send_def PostTask_def split: option.splits)
  moreover have "Publish c target_id stream ok None = c" "Send c target_id message ok None = c"
    using assms by (simp_all add: Publish_def Send_def)
  ultimately show ?thesis by blast
qed

theorem Publish_Send_not_allowed_witness:
  "''carol'' \<notin> set (allowed_remote_ids (initial_client example_configuration))
   \<and> (\<exists>e. map run_task
             (event_queue (Send (initial_client example_configuration) ''carol'' ''hi'' (Some 1) (Some 2)))
           = [InvokeFailure 2 e]
         \<and> Exception_Type e = kP2PClientRemoteNotAllowed
         \<and> Exception_Message e
             = ''Sending a message cannot be done since the remote user is not allowed.'')
   \<and> (\<exists>e. map run_task
             (event_queue (Publish (initial_client example_configuration) ''carol'' 5 (Some 1) (Some 2)))
           = [InvokeFailure 2 e]
         \<and> Exception_Type e = kP2PClientRemoteNotAllowed)
   \<and> Send (initial_client example_configuration) ''carol'' ''hi'' (Some 1) None
       = initial_client example_configuration"
proof -
  have h: "''carol'' \<notin> set (allowed_remote_ids (initial_client example_configuration))"
    by (simp add: initial_client_def)
  have q: "event_queue (initial_client example_configuration) = []"
    by (simp add: initial_client_def)
  show ?thesis
    using h Publish_Send_not_allowed [OF h, where message = "''hi''" and ok = "Some 1"
        and f = 2 and stream = 5]
    by (simp add: q)
qed

text \<open>
  With no other thread in between, \<open>Stop\<close> for an identity leaves it in neither
  container, after the \<open>Stop\<close> of its channel, and a \<open>Send\<close> to it afterwards posts the
  \<open>kP2PClientRemoteNotAllowed\<close> failure and creates no session.
\<close>

lemma Stop_then_Send_sequential:
  "map_find (pc_channels (Stop c i ok ko)) i = None
   \<and> i \<notin> fst ` set (pc_channels (Stop c i ok ko))
   \<and> i \<notin> set (allowed_remote_ids (Stop c i ok ko))
   \<and> calls (Stop c i ok ko)
       = calls (snd (GetPeerConnectionChannel c i))
           @ [ChannelStop (fst (GetPeerConnectionChannel c i)) ok ko]
   \<and> (map_find (pc_channels c) i = Some h \<longrightarrow>
        calls (Stop c i ok ko) = calls c @ [ChannelStop h ok ko])
   \<and> (\<exists>e. map run_task (event_queue (Send (Stop c i ok ko) i m ok' (Some f)))
             = map run_task (event_queue (Stop c i ok ko)) @ [InvokeFailure f e]
           \<and> Exception_Type e = kP2PClientRemoteNotAllowed)
   \<and> pc_channels (Send (Stop c i ok ko) i m ok' ko') = pc_channels (Stop c i ok ko)
   \<and> allowed_remote_ids (Send (Stop c i ok ko) i m ok' ko') = allowed_remote_ids (Stop c i ok ko)"
proof -
  let ?s = "Stop c i ok ko"
  have a: "i \<notin> set (allowed_remote_ids ?s)" by (rule Stop_not_allowed_after)
  have n: "map_find (pc_channels ?s) i = None" by (rule Stop_no_session_after)
  then have n': "i \<notin> fst ` set (pc_channels ?s)" by (simp add: map_find_None_iff)
  have k: "calls ?s = calls (snd (GetPeerConnectionChannel c i))
           @ [ChannelStop (fst (GetPeerConnectionChannel c i)) ok ko]"
    by (rule Stop_calls)
  have k': "map_find (pc_channels c) i = Some h \<longrightarrow> calls ?s = calls c @ [ChannelStop h ok ko]"
    by (simp add: k GetPeerConnectionChannel_existing)
  have s: "\<exists>e. map run_task (event_queue (Send ?s i m ok' (Some f)))
             = map run_task (event_queue ?s) @ [InvokeFailure f e]
           \<and> Exception_Type e = kP2PClientRemoteNotAllowed"
    by (simp add: Send_not_allowed_Some [OF a] PostTask_def Exception_new_Type)
  have p: "pc_channels (Send ?s i m ok' ko') = pc_channels ?s"
    by (rule Send_not_allowed_pc_channels [OF a])
  have q: "allowed_remote_ids (Send ?s i m ok' ko') = allowed_remote_ids ?s"
    using a by (simp add: Send_def PostTask_def split: option.splits)
  from n n' a k k' s p q show ?thesis by blast
qed

text \<open>
  C3. The claim: after \<open>Stop\<close> for an identity returns, the identity is in neither
  \<open>pc_channels_\<close> nor \<open>allowed_remote_ids_\<close>, the two removals being one atomic unit, and
  a \<open>Send\<close> to it afterwards fails with \<open>kP2PClientRemoteNotAllowed\<close>. The code takes
  \<open>remote_ids_mutex_\<close> only after \<open>pc_channels_.erase\<close>, and \<open>Send\<close> takes no lock. On a
  client with a session 0 for "bob", let another thread's \<open>Send\<close> to "bob" run between
  the two parts of \<open>Stop\<close>: after the first part "bob" is still allowed and has no
  session, so the \<open>Send\<close> passes the check and creates session 1; the second part then
  removes "bob" from the allowed list. When \<open>Stop\<close> returns, "bob" is not allowed and
  \<open>pc_channels_\<close> holds a session for "bob". The two parts, run with nothing in between,
  are \<open>Stop\<close>.
\<close>

theorem Stop_interleaved_Send_leaves_session:
  "Stop bob_client ''bob'' None None
     = Stop_under_lock (Stop_before_lock bob_client ''bob'' None None) ''bob''
   \<and> map_find (pc_channels bob_client) ''bob'' = Some 0
   \<and> ''bob'' \<in> set (allowed_remote_ids (Stop_before_lock bob_client ''bob'' None None))
   \<and> map_find (pc_channels (Stop_before_lock bob_client ''bob'' None None)) ''bob'' = None
   \<and> ''bob'' \<notin> set (allowed_remote_ids
         (Stop_under_lock
            (Send (Stop_before_lock bob_client ''bob'' None None) ''bob'' ''late'' None None)
            ''bob''))
   \<and> map_find (pc_channels
         (Stop_under_lock
            (Send (Stop_before_lock bob_client ''bob'' None None) ''bob'' ''late'' None None)
            ''bob'')) ''bob'' = Some 1
   \<and> last (calls
         (Stop_under_lock
            (Send (Stop_before_lock bob_client ''bob'' None None) ''bob'' ''late'' None None)
            ''bob'')) = ChannelSend 1 ''late'' None None"
proof -
  let ?c1 = "Stop_before_lock bob_client ''bob'' None None"
  let ?c2 = "Send ?c1 ''bob'' ''late'' None None"
  have s: "Stop bob_client ''bob'' None None = Stop_under_lock ?c1 ''bob''"
    by (rule Stop_split)
  have h: "map_find (pc_channels bob_client) ''bob'' = Some 0"
    by (simp add: bob_client_eval map_find_def)
  have g: "GetPeerConnectionChannel bob_client ''bob'' = (0, bob_client)"
    using h by (rule GetPeerConnectionChannel_existing)
  have c1: "allowed_remote_ids ?c1 = [''bob'']" "pc_channels ?c1 = []"
    by (simp_all add: Stop_before_lock_def g make_call_def map_erase_def bob_client_eval)
  have n1: "next_channel ?c1 = 1"
    by (simp add: Stop_before_lock_def g make_call_def)
      (simp add: bob_client_def bob_allowed_def run_defs)
  have g2: "fst (GetPeerConnectionChannel ?c1 ''bob'') = 1"
    "pc_channels (snd (GetPeerConnectionChannel ?c1 ''bob'')) = [(''bob'', 1)]"
    "allowed_remote_ids (snd (GetPeerConnectionChannel ?c1 ''bob'')) = [''bob'']"
    by (simp_all add: GetPeerConnectionChannel_def c1 n1 map_find_def map_insert_def
        make_call_def Let_def)
  have a: "''bob'' \<in> set (allowed_remote_ids ?c1)" by (simp add: c1)
  have c2: "pc_channels ?c2 = [(''bob'', 1)]" "allowed_remote_ids ?c2 = [''bob'']"
    "last (calls ?c2) = ChannelSend 1 ''late'' None None"
    by (simp_all add: Send_allowed_eq [OF a] make_call_fields g2)
  show ?thesis
    using s h a by (simp add: c1 c2 Stop_under_lock_def map_find_def)
qed

text \<open>
  C5. \<open>OnMessage\<close>: for a remote id that is not allowed, nothing changes but the log; for
  an allowed remote id, the chat-closed payload with no session changes nothing but the
  log; in every other case the channel of \<open>GetPeerConnectionChannel\<close> (the existing one
  when there is one, with nothing else changed) is the session of the remote id afterwards
  and receives the message through \<open>OnIncomingSignalingMessage\<close>.
\<close>

theorem OnMessage_dispatch:
  "(remote_id \<notin> set (allowed_remote_ids c) \<longrightarrow>
      OnMessage c message remote_id = c\<lparr>logs := logs (OnMessage c message remote_id)\<rparr>)
   \<and> (remote_id \<in> set (allowed_remote_ids c) \<and> message = chat_closed
        \<and> map_find (pc_channels c) remote_id = None \<longrightarrow>
      OnMessage c message remote_id = c\<lparr>logs := logs (OnMessage c message remote_id)\<rparr>)
   \<and> (remote_id \<in> set (allowed_remote_ids c)
        \<and> \<not> (message = chat_closed \<and> map_find (pc_channels c) remote_id = None) \<longrightarrow>
      OnMessage c message remote_id
        = make_call (ChannelOnIncomingSignalingMessage (fst (GetPeerConnectionChannel c remote_id)) message)
            (snd (GetPeerConnectionChannel c remote_id))
      \<and> map_find (pc_channels (OnMessage c message remote_id)) remote_id
          = Some (fst (GetPeerConnectionChannel c remote_id))
      \<and> last (calls (OnMessage c message remote_id))
          = ChannelOnIncomingSignalingMessage (fst (GetPeerConnectionChannel c remote_id)) message
      \<and> (\<forall>h. map_find (pc_channels c) remote_id = Some h \<longrightarrow>
            OnMessage c message remote_id
              = c\<lparr>calls := calls c @ [ChannelOnIncomingSignalingMessage h message]\<rparr>))"
proof -
  have 1: "remote_id \<notin> set (allowed_remote_ids c) \<longrightarrow>
      OnMessage c message remote_id = c\<lparr>logs := logs (OnMessage c message remote_id)\<rparr>"
    by (simp add: OnMessage_def RTC_LOG_def)
  have 2: "remote_id \<in> set (allowed_remote_ids c) \<and> message = chat_closed
        \<and> map_find (pc_channels c) remote_id = None \<longrightarrow>
      OnMessage c message remote_id = c\<lparr>logs := logs (OnMessage c message remote_id)\<rparr>"
    by (simp add: OnMessage_def RTC_LOG_def IsPeerConnectionChannelCreated_def)
  have 3: "remote_id \<in> set (allowed_remote_ids c)
        \<and> \<not> (message = chat_closed \<and> map_find (pc_channels c) remote_id = None) \<longrightarrow>
      OnMessage c message remote_id
        = make_call (ChannelOnIncomingSignalingMessage (fst (GetPeerConnectionChannel c remote_id)) message)
            (snd (GetPeerConnectionChannel c remote_id))"
    by (auto simp add: OnMessage_def IsPeerConnectionChannelCreated_def split_def Let_def)
  have 4: "pc_channels (make_call k d) = pc_channels d" for k d by (simp add: make_call_def)
  have 5: "last (calls (make_call k d)) = k" for k d by (simp add: make_call_def)
  have 6: "map_find (pc_channels c) remote_id = Some h \<Longrightarrow>
      make_call (ChannelOnIncomingSignalingMessage (fst (GetPeerConnectionChannel c remote_id)) message)
            (snd (GetPeerConnectionChannel c remote_id))
       = c\<lparr>calls := calls c @ [ChannelOnIncomingSignalingMessage h message]\<rparr>" for h
    by (simp add: GetPeerConnectionChannel_existing make_call_def)
  show ?thesis
    using 1 2 3 by (auto simp add: 4 5 6 GetPeerConnectionChannel_find)
qed

theorem OnMessage_dispatch_witness:
  "''eve'' \<notin> set (allowed_remote_ids (initial_client example_configuration))
   \<and> pc_channels (OnMessage (initial_client example_configuration) ''offer'' ''eve'') = []
   \<and> ''eve'' \<in> set (allowed_remote_ids eve_client)
   \<and> map_find (pc_channels eve_client) ''eve'' = None
   \<and> pc_channels (OnMessage eve_client chat_closed ''eve'') = []
   \<and> calls (OnMessage eve_client chat_closed ''eve'') = calls eve_client
   \<and> ''offer'' \<noteq> chat_closed
   \<and> map_find (pc_channels (OnMessage eve_client ''offer'' ''eve'')) ''eve'' = Some 0
   \<and> last (calls (OnMessage eve_client ''offer'' ''eve''))
       = ChannelOnIncomingSignalingMessage 0 ''offer''"
proof -
  let ?i = "initial_client example_configuration"
  have a: "''eve'' \<notin> set (allowed_remote_ids ?i)" by (simp add: initial_client_def)
  have b: "''eve'' \<in> set (allowed_remote_ids eve_client)" by (simp add: eve_client_eval)
  have n: "map_find (pc_channels eve_client) ''eve'' = None"
    by (simp add: eve_client_eval map_find_def)
  have d: "''offer'' \<noteq> chat_closed" by (simp add: chat_closed_def)
  have 1: "OnMessage ?i ''offer'' ''eve'' = ?i\<lparr>logs := logs (OnMessage ?i ''offer'' ''eve'')\<rparr>"
    using a OnMessage_dispatch [where c = ?i and remote_id = "''eve''" and message = "''offer''"] by blast
  have 2: "OnMessage eve_client chat_closed ''eve''
           = eve_client\<lparr>logs := logs (OnMessage eve_client chat_closed ''eve'')\<rparr>"
    using b n OnMessage_dispatch [where c = eve_client and remote_id = "''eve''" and message = chat_closed]
    by blast
  have 3: "map_find (pc_channels (OnMessage eve_client ''offer'' ''eve'')) ''eve''
             = Some (fst (GetPeerConnectionChannel eve_client ''eve''))
           \<and> last (calls (OnMessage eve_client ''offer'' ''eve''))
             = ChannelOnIncomingSignalingMessage (fst (GetPeerConnectionChannel eve_client ''eve''))
                 ''offer''"
    using b d OnMessage_dispatch [where c = eve_client and remote_id = "''eve''" and message = "''offer''"]
    by blast
  have p1: "pc_channels (OnMessage ?i ''offer'' ''eve'') = []"
    using arg_cong [OF 1, of pc_channels] by (simp add: initial_client_def)
  have p2: "pc_channels (OnMessage eve_client chat_closed ''eve'') = []"
    using arg_cong [OF 2, of pc_channels] by (simp add: eve_client_eval)
  have p3: "calls (OnMessage eve_client chat_closed ''eve'') = calls eve_client"
    using arg_cong [OF 2, of calls] by simp
  from a b n d p1 p2 p3 3 show ?thesis by (simp add: eve_client_channel)
qed

section \<open>One session per identity\<close>

text \<open>
  C9. \<open>GetPeerConnectionChannel\<close> on an identity that has a session returns that channel
  and leaves the client as it is; in every reachable state the keys of \<open>pc_channels_\<close> are
  distinct; a \<open>Send\<close> right after a \<open>Publish\<close> to an allowed identity goes to the
  channel the \<open>Publish\<close> went to, and allocates none.
\<close>

theorem GetPeerConnectionChannel_reuses_session:
  "(map_find (pc_channels c) t = Some h \<longrightarrow> GetPeerConnectionChannel c t = (h, c))
   \<and> (reachable c \<longrightarrow> distinct (map fst (pc_channels c)))
   \<and> (t \<in> set (allowed_remote_ids c) \<longrightarrow>
        last (calls (Publish c t s ok ko))
          = ChannelPublish (fst (GetPeerConnectionChannel c t)) s (PublishLambda ok t s) ko
        \<and> last (calls (Send (Publish c t s ok ko) t m ok' ko'))
          = ChannelSend (fst (GetPeerConnectionChannel c t)) m ok' ko'
        \<and> pc_channels (Send (Publish c t s ok ko) t m ok' ko') = pc_channels (Publish c t s ok ko)
        \<and> next_channel (Send (Publish c t s ok ko) t m ok' ko')
            = next_channel (Publish c t s ok ko))"
proof -
  have 1: "map_find (pc_channels c) t = Some h \<longrightarrow> GetPeerConnectionChannel c t = (h, c)"
    by (simp add: GetPeerConnectionChannel_existing)
  have 2: "reachable c \<longrightarrow> distinct (map fst (pc_channels c))"
    using reachable_wf [of c] by (simp add: wf_client_def)
  have 3: "last (calls (Publish c t s ok ko))
          = ChannelPublish (fst (GetPeerConnectionChannel c t)) s (PublishLambda ok t s) ko
        \<and> last (calls (Send (Publish c t s ok ko) t m ok' ko'))
          = ChannelSend (fst (GetPeerConnectionChannel c t)) m ok' ko'
        \<and> pc_channels (Send (Publish c t s ok ko) t m ok' ko') = pc_channels (Publish c t s ok ko)
        \<and> next_channel (Send (Publish c t s ok ko) t m ok' ko')
            = next_channel (Publish c t s ok ko)"
    if a: "t \<in> set (allowed_remote_ids c)"
  proof -
    let ?p = "Publish c t s ok ko"
    let ?h = "fst (GetPeerConnectionChannel c t)"
    have pa: "t \<in> set (allowed_remote_ids ?p)"
      using a by (simp add: Publish_allowed_eq make_call_fields GetPeerConnectionChannel_allowed)
    have pf: "map_find (pc_channels ?p) t = Some ?h"
      using a by (simp add: Publish_allowed_eq make_call_fields GetPeerConnectionChannel_find)
    have g: "GetPeerConnectionChannel ?p t = (?h, ?p)"
      using pf by (rule GetPeerConnectionChannel_existing)
    have se: "Send ?p t m ok' ko' = make_call (ChannelSend ?h m ok' ko') ?p"
      by (simp add: Send_allowed_eq [OF pa] g)
    show ?thesis
      by (simp add: se make_call_fields) (simp add: Publish_allowed_eq [OF a] make_call_fields)
  qed
  from 1 2 3 show ?thesis by blast
qed

theorem GetPeerConnectionChannel_reuses_session_witness:
  "map_find (pc_channels bob_client) ''bob'' = Some 0
   \<and> GetPeerConnectionChannel bob_client ''bob'' = (0, bob_client)
   \<and> reachable bob_client
   \<and> distinct (map fst (pc_channels bob_client))
   \<and> ''bob'' \<in> set (allowed_remote_ids bob_allowed)
   \<and> last (calls (Publish bob_allowed ''bob'' 5 None None))
       = ChannelPublish 0 5 (PublishLambda None ''bob'' 5) None
   \<and> last (calls (Send (Publish bob_allowed ''bob'' 5 None None) ''bob'' ''hi'' None None))
       = ChannelSend 0 ''hi'' None None"
proof -
  have h: "map_find (pc_channels bob_client) ''bob'' = Some 0"
    by (simp add: bob_client_eval map_find_def)
  have r: "reachable bob_client"
    unfolding bob_client_def bob_allowed_def
    by (intro r_Send r_AddAllowedRemoteId reachable_initial)
  have a: "''bob'' \<in> set (allowed_remote_ids bob_allowed)" by (simp add: bob_allowed_eval)
  have 1: "GetPeerConnectionChannel bob_client ''bob'' = (0, bob_client)
           \<and> distinct (map fst (pc_channels bob_client))"
    using h r GetPeerConnectionChannel_reuses_session [where c = bob_client and t = "''bob''" and h = 0] by blast
  have 2: "last (calls (Publish bob_allowed ''bob'' 5 None None))
       = ChannelPublish (fst (GetPeerConnectionChannel bob_allowed ''bob'')) 5
           (PublishLambda None ''bob'' 5) None
   \<and> last (calls (Send (Publish bob_allowed ''bob'' 5 None None) ''bob'' ''hi'' None None))
       = ChannelSend (fst (GetPeerConnectionChannel bob_allowed ''bob'')) ''hi'' None None"
    using a GetPeerConnectionChannel_reuses_session [where c = bob_allowed and t = "''bob''" and s = 5 and ok = None and ko = None
        and m = "''hi''" and ok' = None and ko' = None]
    by blast
  from h r a 1 2 show ?thesis by (simp add: bob_allowed_channel)
qed

section \<open>The allowed list\<close>

text \<open>
  C6. \<open>RemoveAllowedRemoteId\<close> for an identity that is not in the allowed list changes
  nothing but the event queue, on which it posts one task (none with an empty
  \<open>on_failure\<close>); run, the task invokes \<open>on_failure\<close> with an exception of kind
  \<open>kP2PClientRemoteNotExisted\<close>. For an identity in the list it is \<open>Stop\<close>: afterwards
  the identity is in neither the list nor \<open>pc_channels_\<close>, and an existing session's
  channel has been stopped.
\<close>

theorem RemoveAllowedRemoteId_outcome:
  "(i \<notin> set (allowed_remote_ids c) \<longrightarrow>
      (\<exists>e. map run_task (event_queue (RemoveAllowedRemoteId c i ok (Some f)))
              = map run_task (event_queue c) @ [InvokeFailure f e]
            \<and> Exception_Type e = kP2PClientRemoteNotExisted
            \<and> Exception_Message e = ''Trying to delete non-existed remote id.'')
      \<and> RemoveAllowedRemoteId c i ok ko
          = c\<lparr>event_queue := event_queue (RemoveAllowedRemoteId c i ok ko)\<rparr>
      \<and> RemoveAllowedRemoteId c i ok None = c)
   \<and> (i \<in> set (allowed_remote_ids c) \<longrightarrow>
      RemoveAllowedRemoteId c i ok ko = Stop c i ok ko
      \<and> i \<notin> set (allowed_remote_ids (RemoveAllowedRemoteId c i ok ko))
      \<and> map_find (pc_channels (RemoveAllowedRemoteId c i ok ko)) i = None
      \<and> event_queue (RemoveAllowedRemoteId c i ok ko) = event_queue c
      \<and> (\<forall>h. map_find (pc_channels c) i = Some h \<longrightarrow>
            calls (RemoveAllowedRemoteId c i ok ko) = calls c @ [ChannelStop h ok ko]))"
proof -
  have 1: "i \<notin> set (allowed_remote_ids c) \<longrightarrow>
      (\<exists>e. map run_task (event_queue (RemoveAllowedRemoteId c i ok (Some f)))
              = map run_task (event_queue c) @ [InvokeFailure f e]
            \<and> Exception_Type e = kP2PClientRemoteNotExisted
            \<and> Exception_Message e = ''Trying to delete non-existed remote id.'')"
    by (simp add: RemoveAllowedRemoteId_def PostTask_def Exception_new_Type Exception_new_Message)
  have 2: "i \<notin> set (allowed_remote_ids c) \<longrightarrow>
      RemoveAllowedRemoteId c i ok ko
          = c\<lparr>event_queue := event_queue (RemoveAllowedRemoteId c i ok ko)\<rparr>
      \<and> RemoveAllowedRemoteId c i ok None = c"
    by (simp add: RemoveAllowedRemoteId_def PostTask_def split: option.splits)
  have 3: "i \<in> set (allowed_remote_ids c) \<longrightarrow> RemoveAllowedRemoteId c i ok ko = Stop c i ok ko"
    by (simp add: RemoveAllowedRemoteId_def)
  have 4: "event_queue (Stop c i ok ko) = event_queue c"
    by (simp add: Stop_def make_call_def Let_def split_def GetPeerConnectionChannel_event_queue)
  have 5: "\<forall>h. map_find (pc_channels c) i = Some h \<longrightarrow>
            calls (Stop c i ok ko) = calls c @ [ChannelStop h ok ko]"
    by (simp add: Stop_calls GetPeerConnectionChannel_existing)
  show ?thesis
    using 1 2 3 4 5 Stop_not_allowed_after [of i c ok ko] Stop_no_session_after [of c i ok ko]
    by simp
qed

theorem RemoveAllowedRemoteId_outcome_witness:
  "''dave'' \<notin> set (allowed_remote_ids (initial_client example_configuration))
   \<and> RemoveAllowedRemoteId (initial_client example_configuration) ''dave'' None None
       = initial_client example_configuration
   \<and> (\<exists>e. map run_task (event_queue
              (RemoveAllowedRemoteId (initial_client example_configuration) ''dave'' None (Some 3)))
            = [InvokeFailure 3 e]
          \<and> Exception_Type e = kP2PClientRemoteNotExisted)
   \<and> ''bob'' \<in> set (allowed_remote_ids bob_client)
   \<and> ''bob'' \<notin> set (allowed_remote_ids (RemoveAllowedRemoteId bob_client ''bob'' None None))
   \<and> map_find (pc_channels (RemoveAllowedRemoteId bob_client ''bob'' None None)) ''bob'' = None
   \<and> calls (RemoveAllowedRemoteId bob_client ''bob'' None None)
       = calls bob_client @ [ChannelStop 0 None None]"
proof -
  let ?i = "initial_client example_configuration"
  have a: "''dave'' \<notin> set (allowed_remote_ids ?i)" by (simp add: initial_client_def)
  have q: "event_queue ?i = []" by (simp add: initial_client_def)
  have b: "''bob'' \<in> set (allowed_remote_ids bob_client)" by (simp add: bob_client_eval)
  have h: "map_find (pc_channels bob_client) ''bob'' = Some 0"
    by (simp add: bob_client_eval map_find_def)
  have 1: "RemoveAllowedRemoteId ?i ''dave'' None None = ?i
      \<and> (\<exists>e. map run_task (event_queue (RemoveAllowedRemoteId ?i ''dave'' None (Some 3)))
              = map run_task (event_queue ?i) @ [InvokeFailure 3 e]
            \<and> Exception_Type e = kP2PClientRemoteNotExisted)"
    using a RemoveAllowedRemoteId_outcome [where c = ?i and i = "''dave''" and ok = None and f = 3] by blast
  have 2: "''bob'' \<notin> set (allowed_remote_ids (RemoveAllowedRemoteId bob_client ''bob'' None None))
      \<and> map_find (pc_channels (RemoveAllowedRemoteId bob_client ''bob'' None None)) ''bob'' = None
      \<and> calls (RemoveAllowedRemoteId bob_client ''bob'' None None)
          = calls bob_client @ [ChannelStop 0 None None]"
    using b h RemoveAllowedRemoteId_outcome [where c = bob_client and i = "''bob''" and ok = None and ko = None] by blast
  from a b 1 2 show ?thesis by (simp add: q)
qed

text \<open>
  C8. In a reachable state, after two calls of \<open>AddAllowedRemoteId\<close> with the same identity
  the allowed list holds the identity exactly once, and the second call changes nothing
  but the log.
\<close>

theorem AddAllowedRemoteId_idempotent:
  assumes "reachable c"
  shows "count_list (allowed_remote_ids (AddAllowedRemoteId (AddAllowedRemoteId c i) i)) i = 1
       \<and> allowed_remote_ids (AddAllowedRemoteId (AddAllowedRemoteId c i) i)
           = allowed_remote_ids (AddAllowedRemoteId c i)
       \<and> AddAllowedRemoteId (AddAllowedRemoteId c i) i
           = (AddAllowedRemoteId c i)
               \<lparr>logs := logs (AddAllowedRemoteId c i) @ [(LS_INFO, ''Adding duplicated remote id.'')]\<rparr>"
proof -
  let ?c1 = "AddAllowedRemoteId c i"
  have d: "distinct (allowed_remote_ids c)"
    using reachable_wf [OF assms] by (simp add: wf_client_def)
  have m: "i \<in> set (allowed_remote_ids ?c1)" by (rule AddAllowedRemoteId_member)
  have e: "AddAllowedRemoteId ?c1 i
           = ?c1\<lparr>logs := logs ?c1 @ [(LS_INFO, ''Adding duplicated remote id.'')]\<rparr>"
    using m by (simp add: AddAllowedRemoteId_def [of ?c1] RTC_LOG_def)
  have s: "allowed_remote_ids (AddAllowedRemoteId ?c1 i) = allowed_remote_ids ?c1"
    by (subst e) simp
  have "count_list (allowed_remote_ids ?c1) i = 1"
    using AddAllowedRemoteId_distinct [OF d] m by (rule distinct_count_list_1)
  with s e show ?thesis by simp
qed

theorem AddAllowedRemoteId_idempotent_witness:
  "reachable (initial_client example_configuration)
   \<and> count_list (allowed_remote_ids
        (AddAllowedRemoteId (AddAllowedRemoteId (initial_client example_configuration) ''bob'') ''bob''))
        ''bob'' = 1
   \<and> allowed_remote_ids
        (AddAllowedRemoteId (AddAllowedRemoteId (initial_client example_configuration) ''bob'') ''bob'')
      = [''bob'']"
proof -
  have r: "reachable (initial_client example_configuration)" by (rule reachable_initial)
  have e: "allowed_remote_ids (AddAllowedRemoteId (initial_client example_configuration) ''bob'')
           = [''bob'']"
    by (simp add: run_defs)
  show ?thesis
    using r AddAllowedRemoteId_idempotent [OF r, of "''bob''"] by (simp add: e)
qed

section \<open>Publications\<close>

text \<open>
  C7. \<open>Publish\<close> for an allowed target posts nothing on the event queue and hands the
  lambda that builds the publication to the channel only, as the success callback of its
  \<open>Publish\<close>. When the channel reports success, the lambda delivers a publication of
  (client, target, stream) to \<open>on_success\<close> (nothing with an empty \<open>on_success\<close> or a
  client that is gone); when it reports a failure, only \<open>on_failure\<close> is invoked, with the
  channel's exception. For a target that is not allowed no channel call is made, and no
  posted task ever delivers a publication.
\<close>

theorem Publish_publication_after_success:
  "(target_id \<in> set (allowed_remote_ids c) \<longrightarrow>
      calls (Publish c target_id stream ok ko)
        = calls (snd (GetPeerConnectionChannel c target_id))
            @ [ChannelPublish (fst (GetPeerConnectionChannel c target_id)) stream
                 (PublishLambda ok target_id stream) ko]
      \<and> event_queue (Publish c target_id stream ok ko) = event_queue c
      \<and> channel_publish_reports (last (calls (Publish c target_id stream (Some g) ko)))
            PublishSucceeded (Some self)
          = [InvokePublishSuccess g
               \<lparr>publication_client = self, publication_target_id = target_id,
                publication_stream = stream\<rparr>]
      \<and> channel_publish_reports (last (calls (Publish c target_id stream ok ko)))
            PublishSucceeded None = []
      \<and> channel_publish_reports (last (calls (Publish c target_id stream None ko)))
            PublishSucceeded that = []
      \<and> channel_publish_reports (last (calls (Publish c target_id stream ok (Some f))))
            (PublishFailed e) that = [InvokeFailure f e]
      \<and> channel_publish_reports (last (calls (Publish c target_id stream ok None)))
            (PublishFailed e) that = [])
   \<and> (target_id \<notin> set (allowed_remote_ids c) \<longrightarrow>
        calls (Publish c target_id stream ok ko) = calls c)
   \<and> (\<forall>t g' p. run_task t \<noteq> InvokePublishSuccess g' p)"
proof -
  have 1: "target_id \<notin> set (allowed_remote_ids c) \<longrightarrow>
        calls (Publish c target_id stream ok ko) = calls c"
    by (simp add: Publish_def PostTask_def split: option.splits)
  have 2: "channel_publish_reports (ChannelPublish h stream (PublishLambda ok target_id stream) ko)
             PublishSucceeded None = []" for h
    by (simp add: run_publish_lambda_def split: option.splits)
  show ?thesis
    using 1
    by (simp add: Publish_allowed_eq make_call_fields GetPeerConnectionChannel_event_queue
        run_publish_lambda_def run_task_no_publication 2 split: option.splits)
qed

theorem Publish_publication_after_success_witness:
  "''bob'' \<in> set (allowed_remote_ids bob_allowed)
   \<and> channel_publish_reports (last (calls (Publish bob_allowed ''bob'' 5 (Some 1) (Some 2))))
        PublishSucceeded (Some 9)
      = [InvokePublishSuccess 1
           \<lparr>publication_client = 9, publication_target_id = ''bob'', publication_stream = 5\<rparr>]
   \<and> channel_publish_reports (last (calls (Publish bob_allowed ''bob'' 5 (Some 1) (Some 2))))
        (PublishFailed Exception_default) (Some 9)
      = [InvokeFailure 2 Exception_default]
   \<and> ''carol'' \<notin> set (allowed_remote_ids bob_allowed)
   \<and> calls (Publish bob_allowed ''carol'' 5 (Some 1) (Some 2)) = calls bob_allowed"
proof -
  have a: "''bob'' \<in> set (allowed_remote_ids bob_allowed)" by (simp add: bob_allowed_eval)
  have b: "''carol'' \<notin> set (allowed_remote_ids bob_allowed)" by (simp add: bob_allowed_eval)
  show ?thesis
    using a b
      Publish_publication_after_success [where c = bob_allowed and target_id = "''bob''" and stream = 5 and ok = "Some 1"
        and g = 1 and ko = "Some 2" and f = 2 and self = 9 and e = Exception_default
        and that = "Some 9"]
      Publish_publication_after_success [where c = bob_allowed and target_id = "''carol''" and stream = 5 and ok = "Some 1"
        and ko = "Some 2"]
    by blast
qed

section \<open>Signaling\<close>

text \<open>
  C4. The claim: \<open>SendSignalingMessage\<close> forwards the message to the transport tagged with
  the remote id, and a failure that the transport reports reaches the caller's
  \<open>on_failure\<close> unchanged. The first half holds. For the second the code passes \<open>nullptr\<close>
  in place of \<open>on_failure\<close> (\<open>// TODO:fix on_failure.\<close>): the transport has no failure
  callback to report to, whatever the caller gave, so a failure of the transport invokes
  nothing.
\<close>

theorem SendSignalingMessage_drops_on_failure:
  "calls (SendSignalingMessage c message remote_id ok (Some f))
     = calls c @ [SignalingSendMessage message remote_id ok None]
   \<and> transport_send_fails (last (calls (SendSignalingMessage c message remote_id ok (Some f)))) code
       = []
   \<and> SendSignalingMessage c message remote_id ok (Some f)
       = SendSignalingMessage c message remote_id ok None"
  by (simp add: SendSignalingMessage_def make_call_def)

section \<open>Observers\<close>

text \<open>
  C10. \<open>RemoveObserver\<close> on a registered observer: \<open>find_if\<close> finds a position before
  \<open>end()\<close> and exactly the first entry with that address is erased. On an observer that
  is not registered \<open>find_if\<close> returns \<open>end()\<close>, and erasing it is undefined behaviour.
\<close>

theorem RemoveObserver_registered:
  "(ob \<in> set (observers c) \<longrightarrow>
      find_if (\<lambda>o'. ob = o') (observers c) < length (observers c)
      \<and> RemoveObserver c ob = Inr (c\<lparr>observers := remove1 ob (observers c)\<rparr>)
      \<and> length (remove1 ob (observers c)) + 1 = length (observers c))
   \<and> (ob \<notin> set (observers c) \<longrightarrow> RemoveObserver c ob = Inl EraseEndIterator)"
proof -
  have 1: "length (remove1 ob (observers c)) + 1 = length (observers c)"
    if "ob \<in> set (observers c)"
    using that by (simp add: length_remove1) (cases "observers c"; simp)
  show ?thesis
    using 1
    by (simp add: RemoveObserver_def vector_erase_def find_if_member find_if_not_member
        erase_find_if)
qed

theorem RemoveObserver_registered_witness:
  "7 \<in> set (observers watched_client)
   \<and> RemoveObserver watched_client 7 = Inr (watched_client\<lparr>observers := [8, 7]\<rparr>)
   \<and> 9 \<notin> set (observers watched_client)
   \<and> RemoveObserver watched_client 9 = Inl EraseEndIterator"
proof -
  have a: "7 \<in> set (observers watched_client)" by (simp add: watched_client_eval)
  have b: "9 \<notin> set (observers watched_client)" by (simp add: watched_client_eval)
  show ?thesis
    using a b RemoveObserver_registered [where c = watched_client and ob = 7] RemoveObserver_registered [where c = watched_client and ob = 9]
    by (simp add: watched_client_eval)
qed

end
